theory Spec2Isabelle
  imports Main "HOL-Library.Word"
begin

section \<open>Op generation for column names (opgen\_column\_name.go)\<close>

text \<open>
  The element \<open>scpb.ColumnName\<close> and the operation \<open>scop.SetColumnName\<close> carry the same
  three fields. \<open>descpb.ID\<close> and \<open>descpb.ColumnID\<close> are 32-bit unsigned integers.
\<close>

record ColumnName =
  TableID :: "32 word"
  ColumnID :: "32 word"
  Name :: string

datatype Op = SetColumnName (op_TableID: "32 word") (op_ColumnID: "32 word") (op_Name: string)

text \<open>The two target statuses and the phases that the registration mentions.\<close>

datatype Status = Status_ABSENT | Status_PUBLIC

datatype Phase = StatementPhase | PreCommitPhase | PostCommitPhase

text \<open>
  The registration is written in the package's small builder language
  (\<open>register\<close>, \<open>add\<close>, \<open>drop\<close>, \<open>to\<close>, \<open>minPhase\<close>, \<open>emit\<close>). The builders are
  kept as constructors, so that the registration below is the source's call tree.
  \<open>drop\<close> is written \<open>drop_target\<close> (and \<open>add\<close> \<open>add_target\<close>) next to HOL's list functions.
\<close>

datatype transitionProperty = minPhase Phase | emit "ColumnName \<Rightarrow> Op"

datatype transitionSpec = to Status "transitionProperty list"

datatype targetSpec = add_target "transitionSpec list" | drop_target "transitionSpec list"

datatype registration = register "targetSpec list"

definition column_name_init :: registration where
  "column_name_init =
     register
       [add_target
          [to Status_PUBLIC
             [minPhase PreCommitPhase,
              emit (\<lambda>this. SetColumnName (TableID this) (ColumnID this) (Name this))]],
        drop_target
          [to Status_ABSENT
             [minPhase PostCommitPhase,
              emit (\<lambda>this. SetColumnName (TableID this) (ColumnID this) (Name this))]]]"

text \<open>Reading a registration: the transitions of a direction, and per transition its
  target status, its minimum phase and the operations it emits for an element.\<close>

datatype Direction = ADD | DROP

fun target_transitions :: "Direction \<Rightarrow> targetSpec \<Rightarrow> transitionSpec list" where
  "target_transitions ADD (add_target ts) = ts"
| "target_transitions DROP (drop_target ts) = ts"
| "target_transitions _ _ = []"

fun transitions :: "Direction \<Rightarrow> registration \<Rightarrow> transitionSpec list" where
  "transitions d (register tgts) = concat (map (target_transitions d) tgts)"

fun min_phases :: "transitionProperty list \<Rightarrow> Phase list" where
  "min_phases [] = []"
| "min_phases (minPhase p # ps) = p # min_phases ps"
| "min_phases (emit f # ps) = min_phases ps"

fun emitted :: "transitionProperty list \<Rightarrow> ColumnName \<Rightarrow> Op list" where
  "emitted [] this = []"
| "emitted (minPhase p # ps) this = emitted ps this"
| "emitted (emit f # ps) this = f this # emitted ps this"

fun transition_view :: "ColumnName \<Rightarrow> transitionSpec \<Rightarrow> Status \<times> Phase list \<times> Op list" where
  "transition_view this (to s ps) = (s, min_phases ps, emitted ps this)"

definition path_ops :: "Direction \<Rightarrow> ColumnName \<Rightarrow> (Status \<times> Phase list \<times> Op list) list" where
  "path_ops d this = map (transition_view this) (transitions d column_name_init)"


section \<open>The savepoint test harness (TestSavepoints)\<close>

subsection \<open>Status strings\<close>

text \<open>
  Modelled from the spec: the constants \<open>sql.NoTxnStateStr\<close>, \<open>sql.OpenStateStr\<close> and the
  string of the aborted state are declared in package \<open>sql\<close>, outside the files at hand;
  the strings are the state names of the specification's data model.
\<close>

definition NoTxnStateStr :: string where
  "NoTxnStateStr = ''NoTxn''"

definition OpenStateStr :: string where
  "OpenStateStr = ''Open''"

definition AbortedStateStr :: string where
  "AbortedStateStr = ''Aborted''"

definition isOpenTxn :: "string \<Rightarrow> bool" where
  "isOpenTxn status \<longleftrightarrow> status = OpenStateStr \<or> status = NoTxnStateStr"

subsection \<open>Failures of the test\<close>

text \<open>
  \<open>td.Fatalf\<close> ends the test at once; each call site is a constructor, carrying the
  values it prints. An out-of-range slice index is a Go run-time panic.
\<close>

datatype failure =
    Fatalf_cleaning_up
  | Fatalf_reading_progress nat
  | Fatalf_unexpected_stepnum nat int
  | Fatalf_txn_status nat
  | Fatalf_savepoint_status nat
  | Fatalf_reading_savepoints nat
  | Fatalf_before_stmt nat
  | Panic_index_out_of_range

text \<open>What a query hands back: an error, or rows each of which \<open>rows.Scan\<close> may fail to
  read.\<close>

datatype 'a scanned = ScanError | Scanned 'a

datatype 'a query_result = QueryError | Rows "'a scanned list"

subsection \<open>The progress bar\<close>

text \<open>\<open>progressBar := make([]byte, len(stmts))\<close>: one zero byte per statement.\<close>

definition make_progressBar :: "'s list \<Rightarrow> char list" where
  "make_progressBar stmts = replicate (length stmts) (CHR 0x00)"

text \<open>\<open>erase\<close>: the loop \<open>for i := range progressBar { progressBar[i] = char }\<close>.\<close>

definition erase :: "string \<Rightarrow> char list \<Rightarrow> char list" where
  "erase status progressBar =
     (let char = (if \<not> isOpenTxn status then CHR ''X'' else CHR ''.'')
      in fold (\<lambda>i bar. bar[i := char]) [0..<length progressBar] progressBar)"

text \<open>\<open>progressBar[i] = c\<close> with Go's bounds check.\<close>

definition set_byte :: "char list \<Rightarrow> int \<Rightarrow> char \<Rightarrow> failure + char list" where
  "set_byte bar i c =
     (if 0 \<le> i \<and> i < int (length bar) then Inr (bar[nat i := c])
      else Inl Panic_index_out_of_range)"

text \<open>
  \<open>updateProgress\<close>: the loop over \<open>rows.Next()\<close>. A row that cannot be scanned and a row
  outside \<open>1..len(progressBar)\<close> end the test; a query that fails is logged and the bar is
  left as it is. \<open>n\<close> is a Go \<open>int\<close>; the guard lets only \<open>n \<ge> 1\<close> reach \<open>n - 1\<close>, so the
  subtraction never wraps and \<open>n\<close> is an unbounded integer here.
\<close>

fun updateProgress_rows :: "nat \<Rightarrow> int scanned list \<Rightarrow> char list \<Rightarrow> failure + char list" where
  "updateProgress_rows stepNum [] progressBar = Inr progressBar"
| "updateProgress_rows stepNum (ScanError # rows) progressBar =
     Inl (Fatalf_reading_progress stepNum)"
| "updateProgress_rows stepNum (Scanned n # rows) progressBar =
     (if n < 1 \<or> n > int (length progressBar) then Inl (Fatalf_unexpected_stepnum stepNum n)
      else (case set_byte progressBar (n - 1) (CHR ''#'') of
              Inl e \<Rightarrow> Inl e
            | Inr bar \<Rightarrow> updateProgress_rows stepNum rows bar))"

definition updateProgress :: "nat \<Rightarrow> int query_result \<Rightarrow> char list \<Rightarrow> failure + char list" where
  "updateProgress stepNum q progressBar =
     (case q of
        QueryError \<Rightarrow> Inr progressBar
      | Rows rows \<Rightarrow> updateProgress_rows stepNum rows progressBar)"

subsection \<open>Rendering the savepoint stack\<close>

text \<open>
  \<open>showSavepointStatus\<close>: the loop state is \<open>(comma, hasSavepoints, buf)\<close>; after the loop
  \<open>(none)\<close> is written when no row was seen.
\<close>

fun showSavepointStatus_rows ::
  "nat \<Rightarrow> (string \<times> bool) scanned list \<Rightarrow> string \<times> bool \<times> string \<Rightarrow>
   failure + (string \<times> bool \<times> string)" where
  "showSavepointStatus_rows stepNum [] st = Inr st"
| "showSavepointStatus_rows stepNum (ScanError # rows) st =
     Inl (Fatalf_reading_savepoints stepNum)"
| "showSavepointStatus_rows stepNum (Scanned (name, isRestart) # rows) (comma, hasSavepoints, buf) =
     (let name' = (if isRestart then name @ ''(r)'' else name)
      in showSavepointStatus_rows stepNum rows (''>'', True, buf @ comma @ name'))"

definition showSavepointStatus ::
  "nat \<Rightarrow> (string \<times> bool) query_result \<Rightarrow> string \<Rightarrow> failure + string" where
  "showSavepointStatus stepNum q buf =
     (case q of
        QueryError \<Rightarrow> Inl (Fatalf_savepoint_status stepNum)
      | Rows rows \<Rightarrow>
          (case showSavepointStatus_rows stepNum rows ('''', False, buf) of
             Inl e \<Rightarrow> Inl e
           | Inr (comma, hasSavepoints, buf') \<Rightarrow>
               Inr (if \<not> hasSavepoints then buf' @ ''(none)'' else buf')))"


section \<open>The session core\<close>

text \<open>
  Modelled from the spec: the connection executor that runs BEGIN, SAVEPOINT, ROLLBACK TO
  and the other statements is not among the repository's files at hand; the harness only
  talks to it over SQL. Everything in this section follows sections 3 to 7 of the
  specification.
\<close>

datatype TxnState = NoTxn | Open | Aborted

text \<open>
  Modelled from the spec: a savepoint (section 3). Names are case-insensitive identifiers; the parser, which is outside the
  core, hands them over in one normal form, so names are compared as they are.
\<close>

record Savepoint =
  name :: string
  isRestart :: bool
  snapshotToken :: nat

subsection \<open>Transactional store adapter\<close>

text \<open>
  Modelled from the spec: the store adapter of section 6 is an external collaborator. A
  store transaction is the list of its uncommitted writes, oldest first, and its conflict
  epoch; a snapshot token is the number of writes present when it was taken, and rewinding
  to a token discards every later write and keeps every earlier one. The committed store is
  the list of committed writes.
\<close>

record 'w StoreTxn =
  writes :: "'w list"
  epoch :: nat

definition Begin :: "'w StoreTxn" where
  "Begin = \<lparr>writes = [], epoch = 0\<rparr>"

definition Write :: "'w StoreTxn \<Rightarrow> 'w list \<Rightarrow> 'w StoreTxn" where
  "Write h ws = h\<lparr>writes := writes h @ ws\<rparr>"

definition CreateSavepoint :: "'w StoreTxn \<Rightarrow> nat" where
  "CreateSavepoint h = length (writes h)"

definition RollbackToSavepoint :: "'w StoreTxn \<Rightarrow> nat \<Rightarrow> 'w StoreTxn" where
  "RollbackToSavepoint h token = h\<lparr>writes := take token (writes h)\<rparr>"

definition BumpEpoch :: "'w StoreTxn \<Rightarrow> 'w StoreTxn" where
  "BumpEpoch h = h\<lparr>epoch := Suc (epoch h)\<rparr>"

definition Commit :: "'w list \<Rightarrow> 'w StoreTxn \<Rightarrow> 'w list" where
  "Commit store h = store @ writes h"

subsection \<open>Sessions, statements, outcomes\<close>

record 'w Session =
  txnState :: TxnState
  stack :: "Savepoint list"
  handle :: "'w StoreTxn option"
  stepCounter :: nat

text \<open>The stack is a list with the top (the savepoint created last) at its head.\<close>

definition new_session :: "'w Session" where
  "new_session = \<lparr>txnState = NoTxn, stack = [], handle = None, stepCounter = 0\<rparr>"

datatype error =
    TransactionAbortedError
  | SavepointNotFoundError
  | InvalidRestartPlacementError
  | RetryableStoreError
  | NonRetryableStoreError
  | CommitFailedError

text \<open>Success carries the optional number of rows affected.\<close>

type_synonym StatementOutcome = "error + nat option"

text \<open>
  An ordinary statement is the thunk of the SQL engine: given the writes it can see (the
  committed ones, then the transaction's own) it succeeds with the writes it performs, or
  fails. \<open>COMMIT\<close> carries the answer of the store's \<open>Commit\<close>, which no part of the core
  decides.
\<close>

datatype 'w thunk_result = Succeeds "'w list" "nat option" | FailsRetryable | FailsNonRetryable

datatype 'w statement =
    BEGIN
  | COMMIT bool
  | ROLLBACK
  | SAVEPOINT string bool
  | RELEASE string
  | ROLLBACK_TO string
  | Ordinary "'w list \<Rightarrow> 'w thunk_result"

subsection \<open>Savepoint stack (section 4.2)\<close>

text \<open>Modelled from the spec: the stack operations of section 4.2, which the executor
  implements. \<open>FindFromTop\<close>: linear scan from the top; the first match and the entries
  below it.\<close>

fun FindFromTop :: "string \<Rightarrow> Savepoint list \<Rightarrow> (Savepoint \<times> Savepoint list) option" where
  "FindFromTop n [] = None"
| "FindFromTop n (sp # below) = (if name sp = n then Some (sp, below) else FindFromTop n below)"

definition Push :: "string \<Rightarrow> bool \<Rightarrow> Savepoint list \<Rightarrow> 'w StoreTxn \<Rightarrow> error + Savepoint list" where
  "Push n r st h =
     (if r \<and> (st \<noteq> [] \<or> writes h \<noteq> []) then Inl InvalidRestartPlacementError
      else Inr (\<lparr>name = n, isRestart = r, snapshotToken = CreateSavepoint h\<rparr> # st))"

text \<open>\<open>RollbackTo\<close> keeps the located entry and gives the token to rewind to.\<close>

definition RollbackTo :: "string \<Rightarrow> Savepoint list \<Rightarrow> error + (Savepoint list \<times> nat)" where
  "RollbackTo n st =
     (case FindFromTop n st of
        None \<Rightarrow> Inl SavepointNotFoundError
      | Some (sp, below) \<Rightarrow> Inr (sp # below, snapshotToken sp))"

definition ReleaseDownTo :: "string \<Rightarrow> Savepoint list \<Rightarrow> error + Savepoint list" where
  "ReleaseDownTo n st =
     (case FindFromTop n st of
        None \<Rightarrow> Inl SavepointNotFoundError
      | Some (sp, below) \<Rightarrow> Inr below)"

definition Clear :: "Savepoint list" where
  "Clear = []"

subsection \<open>Retry coordinator (section 4.3)\<close>

text \<open>Modelled from the spec: the coordinator of section 4.3.
  \<open>None\<close>: no restart savepoint, not retryable from here. Otherwise the stack and the
  store transaction after the rewind to the restart savepoint's name and the epoch bump.\<close>

definition RetryCoordinator ::
  "Savepoint list \<Rightarrow> 'w StoreTxn \<Rightarrow> (Savepoint list \<times> 'w StoreTxn) option" where
  "RetryCoordinator st h =
     (case find isRestart st of
        None \<Rightarrow> None
      | Some restart \<Rightarrow>
          (case RollbackTo (name restart) st of
             Inl e \<Rightarrow> None
           | Inr (st', token) \<Rightarrow> Some (st', BumpEpoch (RollbackToSavepoint h token))))"

subsection \<open>Session transaction controller (sections 4.1 and 4.4)\<close>

text \<open>
  Modelled from the spec: \<open>ExecuteBoundary\<close> of sections 4.1 and 4.4.
  The result is the committed store, the session and the outcome. \<open>None\<close> stands where the
  specification gives the call no behaviour: BEGIN inside a transaction, SAVEPOINT outside
  one, and a session that is in a transaction without a store transaction. COMMIT and
  ROLLBACK outside a transaction follow the lifecycle of section 3 (back to \<open>NoTxn\<close>, stack
  cleared). RELEASE and ROLLBACK TO of a name that is not on the stack report
  \<open>SavepointNotFoundError\<close> in every state (section 7).
\<close>

definition end_txn :: "'w Session \<Rightarrow> 'w Session" where
  "end_txn s = s\<lparr>txnState := NoTxn, stack := Clear, handle := None\<rparr>"

definition rollback_to ::
  "'w list \<Rightarrow> 'w Session \<Rightarrow> string \<Rightarrow> ('w list \<times> 'w Session \<times> StatementOutcome) option" where
  "rollback_to store s n =
     (case RollbackTo n (stack s) of
        Inl e \<Rightarrow> Some (store, s, Inl e)
      | Inr (st', token) \<Rightarrow>
          (case handle s of
             None \<Rightarrow> None
           | Some h \<Rightarrow>
               Some (store,
                     s\<lparr>txnState := Open, stack := st',
                       handle := Some (RollbackToSavepoint h token)\<rparr>,
                     Inr None)))"

fun exec_NoTxn ::
  "'w list \<Rightarrow> 'w Session \<Rightarrow> 'w statement \<Rightarrow> ('w list \<times> 'w Session \<times> StatementOutcome) option" where
  "exec_NoTxn store s BEGIN = Some (store, s\<lparr>txnState := Open, handle := Some Begin\<rparr>, Inr None)"
| "exec_NoTxn store s (COMMIT ok) = Some (store, end_txn s, Inr None)"
| "exec_NoTxn store s ROLLBACK = Some (store, end_txn s, Inr None)"
| "exec_NoTxn store s (SAVEPOINT n r) = None"
| "exec_NoTxn store s (RELEASE n) =
     (case ReleaseDownTo n (stack s) of
        Inl e \<Rightarrow> Some (store, s, Inl e)
      | Inr st' \<Rightarrow> None)"
| "exec_NoTxn store s (ROLLBACK_TO n) =
     (case RollbackTo n (stack s) of
        Inl e \<Rightarrow> Some (store, s, Inl e)
      | Inr r \<Rightarrow> None)"
| "exec_NoTxn store s (Ordinary thunk) =
     (case thunk store of
        Succeeds ws rows \<Rightarrow> Some (store @ ws, s, Inr rows)
      | FailsRetryable \<Rightarrow> Some (store, s, Inl RetryableStoreError)
      | FailsNonRetryable \<Rightarrow> Some (store, s, Inl NonRetryableStoreError))"

fun exec_Open ::
  "'w list \<Rightarrow> 'w Session \<Rightarrow> 'w statement \<Rightarrow> ('w list \<times> 'w Session \<times> StatementOutcome) option" where
  "exec_Open store s BEGIN = None"
| "exec_Open store s (COMMIT ok) =
     (case handle s of
        None \<Rightarrow> None
      | Some h \<Rightarrow>
          (if ok then Some (Commit store h, end_txn s, Inr None)
           else Some (store, s\<lparr>txnState := Aborted\<rparr>, Inl CommitFailedError)))"
| "exec_Open store s ROLLBACK = Some (store, end_txn s, Inr None)"
| "exec_Open store s (SAVEPOINT n r) =
     (case handle s of
        None \<Rightarrow> None
      | Some h \<Rightarrow>
          (case Push n r (stack s) h of
             Inl e \<Rightarrow> Some (store, s, Inl e)
           | Inr st' \<Rightarrow> Some (store, s\<lparr>stack := st'\<rparr>, Inr None)))"
| "exec_Open store s (RELEASE n) =
     (case ReleaseDownTo n (stack s) of
        Inl e \<Rightarrow> Some (store, s, Inl e)
      | Inr st' \<Rightarrow> Some (store, s\<lparr>stack := st'\<rparr>, Inr None))"
| "exec_Open store s (ROLLBACK_TO n) = rollback_to store s n"
| "exec_Open store s (Ordinary thunk) =
     (case handle s of
        None \<Rightarrow> None
      | Some h \<Rightarrow>
          (case thunk (store @ writes h) of
             Succeeds ws rows \<Rightarrow> Some (store, s\<lparr>handle := Some (Write h ws)\<rparr>, Inr rows)
           | FailsNonRetryable \<Rightarrow>
               Some (store, s\<lparr>txnState := Aborted\<rparr>, Inl NonRetryableStoreError)
           | FailsRetryable \<Rightarrow>
               (case RetryCoordinator (stack s) h of
                  None \<Rightarrow> Some (store, s\<lparr>txnState := Aborted\<rparr>, Inl RetryableStoreError)
                | Some (st', h') \<Rightarrow>
                    Some (store, s\<lparr>stack := st', handle := Some h'\<rparr>, Inr None))))"

fun exec_Aborted ::
  "'w list \<Rightarrow> 'w Session \<Rightarrow> 'w statement \<Rightarrow> ('w list \<times> 'w Session \<times> StatementOutcome) option" where
  "exec_Aborted store s ROLLBACK = Some (store, end_txn s, Inr None)"
| "exec_Aborted store s (ROLLBACK_TO n) = rollback_to store s n"
| "exec_Aborted store s (RELEASE n) =
     (case ReleaseDownTo n (stack s) of
        Inl e \<Rightarrow> Some (store, s, Inl e)
      | Inr st' \<Rightarrow> Some (store, s, Inl TransactionAbortedError))"
| "exec_Aborted store s stmt = Some (store, s, Inl TransactionAbortedError)"

definition count_step ::
  "('w list \<times> 'w Session \<times> StatementOutcome) \<Rightarrow> ('w list \<times> 'w Session \<times> StatementOutcome)" where
  "count_step r = (case r of (store, s, out) \<Rightarrow> (store, s\<lparr>stepCounter := Suc (stepCounter s)\<rparr>, out))"

definition ExecuteBoundary ::
  "'w list \<Rightarrow> 'w Session \<Rightarrow> 'w statement \<Rightarrow> ('w list \<times> 'w Session \<times> StatementOutcome) option" where
  "ExecuteBoundary store s stmt =
     map_option count_step
       (case txnState s of
          NoTxn \<Rightarrow> exec_NoTxn store s stmt
        | Open \<Rightarrow> exec_Open store s stmt
        | Aborted \<Rightarrow> exec_Aborted store s stmt)"

subsection \<open>Introspection (section 6)\<close>

text \<open>Modelled from the spec: the two read-only functions behind SHOW TRANSACTION STATUS
  and SHOW SAVEPOINT STATUS.\<close>

definition CurrentStatus :: "'w Session \<Rightarrow> TxnState" where
  "CurrentStatus s = txnState s"

text \<open>\<open>SavepointNames\<close>: the pairs (name, isRestart) from the top of the stack to the bottom.\<close>

definition SavepointNames :: "'w Session \<Rightarrow> (string \<times> bool) list" where
  "SavepointNames s = map (\<lambda>sp. (name sp, isRestart sp)) (stack s)"


section \<open>The harness against the server\<close>

subsection \<open>The server behind the connections\<close>

text \<open>
  Modelled from the spec: the test server is outside the files at hand. It is one
  committed store shared by all connections and one session of the core per connection;
  \<open>sqlConns\<close> is the harness's map from connection names to connections. What the writes
  of the test are: a row put into table \<open>progress\<close>, the deletion of a connection's rows
  from it, or a write of the statement under test to some other table.
\<close>

datatype write_op = ProgressInsert string int | ProgressDelete string | OtherWrite string

fun apply_write :: "write_op \<Rightarrow> (string \<times> int) list \<Rightarrow> (string \<times> int) list" where
  "apply_write (ProgressInsert c n) rows = rows @ [(c, n)]"
| "apply_write (ProgressDelete c) rows = filter (\<lambda>row. fst row \<noteq> c) rows"
| "apply_write (OtherWrite w) rows = rows"

text \<open>The rows \<open>(conn, n)\<close> of table \<open>progress\<close> after a sequence of writes.\<close>

definition progress_table :: "write_op list \<Rightarrow> (string \<times> int) list" where
  "progress_table ws = fold apply_write ws []"

record Server =
  kv :: "write_op list"
  sqlConns :: "string \<Rightarrow> write_op Session option"

text \<open>The writes a connection can see: the committed ones, then those of its own open
  transaction.\<close>

definition visible :: "Server \<Rightarrow> write_op Session \<Rightarrow> write_op list" where
  "visible srv sess = kv srv @ (case handle sess of None \<Rightarrow> [] | Some h \<Rightarrow> writes h)"

text \<open>\<open>getConn\<close>: the connection of that name, opened when the map has none (opening
  one is taken to succeed; the source ends the test when it does not).\<close>

definition getConn :: "string \<Rightarrow> Server \<Rightarrow> Server" where
  "getConn cname srv =
     (case sqlConns srv cname of
        Some conn \<Rightarrow> srv
      | None \<Rightarrow> srv\<lparr>sqlConns := (sqlConns srv)(cname \<mapsto> new_session)\<rparr>)"

text \<open>The server once \<open>progressConn := getConn("progress")\<close> has created table
  \<open>progress\<close>.\<close>

definition start_server :: Server where
  "start_server = getConn ''progress'' \<lparr>kv = [], sqlConns = Map.empty\<rparr>"

text \<open>\<open>conn.ExecContext\<close>: one statement boundary on the session of connection \<open>cname\<close>.\<close>

definition ExecContext ::
  "string \<Rightarrow> write_op statement \<Rightarrow> Server \<Rightarrow> (Server \<times> StatementOutcome) option" where
  "ExecContext cname stmt srv =
     (case sqlConns srv cname of
        None \<Rightarrow> None
      | Some sess \<Rightarrow>
          (case ExecuteBoundary (kv srv) sess stmt of
             None \<Rightarrow> None
           | Some (store, sess', out) \<Rightarrow>
               Some (srv\<lparr>kv := store, sqlConns := (sqlConns srv)(cname \<mapsto> sess')\<rparr>, out)))"

text \<open>The three statements on table \<open>progress\<close>. The insert fails on a duplicate of the
  primary key \<open>(conn, n)\<close>.\<close>

definition insert_progress :: "string \<Rightarrow> int \<Rightarrow> write_op statement" where
  "insert_progress connName n =
     Ordinary (\<lambda>seen. if (connName, n) \<in> set (progress_table seen) then FailsNonRetryable
                      else Succeeds [ProgressInsert connName n] (Some 1))"

definition delete_progress :: "string \<Rightarrow> write_op statement" where
  "delete_progress connName =
     Ordinary (\<lambda>seen. Succeeds [ProgressDelete connName]
                        (Some (length (filter (\<lambda>row. fst row = connName) (progress_table seen)))))"

definition select_progress :: "write_op statement" where
  "select_progress = Ordinary (\<lambda>seen. Succeeds [] None)"

text \<open>\<open>conn.QueryContext(ctx, "SELECT n FROM progress WHERE conn = $1", connName)\<close> on
  connection \<open>cname\<close>.\<close>

definition query_progress ::
  "string \<Rightarrow> string \<Rightarrow> Server \<Rightarrow> (Server \<times> int query_result) option" where
  "query_progress cname connName srv =
     (case sqlConns srv cname of
        None \<Rightarrow> None
      | Some sess \<Rightarrow>
          (case ExecContext cname select_progress srv of
             None \<Rightarrow> None
           | Some (srv', Inl e) \<Rightarrow> Some (srv', QueryError)
           | Some (srv', Inr rows) \<Rightarrow>
               Some (srv', Rows (map (\<lambda>row. Scanned (snd row))
                                   (filter (\<lambda>row. fst row = connName)
                                      (progress_table (visible srv sess)))))))"

text \<open>The status string that SHOW TRANSACTION STATUS prints.\<close>

fun state_str :: "TxnState \<Rightarrow> string" where
  "state_str NoTxn = NoTxnStateStr"
| "state_str Open = OpenStateStr"
| "state_str Aborted = AbortedStateStr"

subsection \<open>The body of the \<open>sql\<close> directive\<close>

text \<open>
  A run ends with a \<open>failure\<close> of the test or with its result. \<open>Unspecified\<close> ends a run at a
  call for which the model of the server has no answer. The statements of the input are
  taken as parsed; the line that echoes a statement and its result is made of the
  statement's text and the server's message, and is left out of \<open>buf\<close>.
\<close>

datatype 'a run = Unspecified | Failure failure | Done 'a

record harness =
  srv :: Server
  progressBar :: "char list"
  buf :: string

text \<open>The row that SHOW TRANSACTION STATUS hands back on connection \<open>connName\<close>.\<close>

definition query_txn_status :: "string \<Rightarrow> Server \<Rightarrow> string scanned run" where
  "query_txn_status connName sv =
     (case sqlConns sv connName of
        None \<Rightarrow> Unspecified
      | Some sess \<Rightarrow> Done (Scanned (state_str (CurrentStatus sess))))"

text \<open>\<open>getTxnStatus\<close> (lines 133 to 140): a row that cannot be scanned ends the test.\<close>

definition getTxnStatus :: "nat \<Rightarrow> string scanned \<Rightarrow> failure + string" where
  "getTxnStatus stepNum row =
     (case row of
        ScanError \<Rightarrow> Inl (Fatalf_txn_status stepNum)
      | Scanned status \<Rightarrow> Inr status)"

definition read_txn_status :: "string \<Rightarrow> nat \<Rightarrow> Server \<Rightarrow> string run" where
  "read_txn_status connName stepNum sv =
     (case query_txn_status connName sv of
        Unspecified \<Rightarrow> Unspecified
      | Failure e \<Rightarrow> Failure e
      | Done row \<Rightarrow>
          (case getTxnStatus stepNum row of
             Inl e \<Rightarrow> Failure e
           | Inr status \<Rightarrow> Done status))"

definition query_savepoint_status :: "string \<Rightarrow> Server \<Rightarrow> (string \<times> bool) query_result run" where
  "query_savepoint_status connName sv =
     (case sqlConns sv connName of
        None \<Rightarrow> Unspecified
      | Some sess \<Rightarrow> Done (Rows (map Scanned (SavepointNames sess))))"

text \<open>
  \<open>%-11s\<close> pads with spaces on the right to a width of eleven runes, counted as
  \<open>utf8.RuneCountInString\<close> counts them: a well-formed UTF-8 sequence of up to four bytes
  is one rune, and any byte that does not start one is a rune by itself. \<open>rune_size\<close> is
  the number of bytes of the rune at the head of a byte sequence.
\<close>

definition continuation :: "nat \<Rightarrow> bool" where
  "continuation b \<longleftrightarrow> 0x80 \<le> b \<and> b \<le> 0xBF"

definition second_ok :: "nat \<Rightarrow> nat \<Rightarrow> bool" where
  "second_ok c b =
     (if c = 0xE0 then 0xA0 \<le> b \<and> b \<le> 0xBF
      else if c = 0xED then 0x80 \<le> b \<and> b \<le> 0x9F
      else if c = 0xF0 then 0x90 \<le> b \<and> b \<le> 0xBF
      else if c = 0xF4 then 0x80 \<le> b \<and> b \<le> 0x8F
      else continuation b)"

fun rune_size :: "nat list \<Rightarrow> nat" where
  "rune_size [] = 0"
| "rune_size (c # rest) =
     (if c < 0x80 then 1
      else if 0xC2 \<le> c \<and> c \<le> 0xDF then
        (case rest of
           b1 # _ \<Rightarrow> if second_ok c b1 then 2 else 1
         | _ \<Rightarrow> 1)
      else if 0xE0 \<le> c \<and> c \<le> 0xEF then
        (case rest of
           b1 # b2 # _ \<Rightarrow> if second_ok c b1 \<and> continuation b2 then 3 else 1
         | _ \<Rightarrow> 1)
      else if 0xF0 \<le> c \<and> c \<le> 0xF4 then
        (case rest of
           b1 # b2 # b3 # _ \<Rightarrow>
             if second_ok c b1 \<and> continuation b2 \<and> continuation b3 then 4 else 1
         | _ \<Rightarrow> 1)
      else 1)"

function RuneCount :: "nat list \<Rightarrow> nat" where
  "RuneCount [] = 0"
| "RuneCount (c # rest) = Suc (RuneCount (drop (rune_size (c # rest) - 1) rest))"
  by pat_completeness auto
termination
  by (relation "measure length") auto

definition RuneCountInString :: "string \<Rightarrow> nat" where
  "RuneCountInString x = RuneCount (map of_char x)"

definition pad11 :: "string \<Rightarrow> string" where
  "pad11 x = x @ replicate (11 - RuneCountInString x) (CHR '' '')"

text \<open>The marker written before a statement (lines 188 to 195): the INSERT goes through
  \<open>progressConn\<close>, the connection named \<open>progress\<close>, whatever connection the directive
  runs on.\<close>

definition mark_progress :: "string \<Rightarrow> nat \<Rightarrow> string \<Rightarrow> Server \<Rightarrow> Server run" where
  "mark_progress connName stepNum beforeStatus sv =
     (if isOpenTxn beforeStatus then
        (case ExecContext ''progress'' (insert_progress connName (int stepNum)) sv of
           None \<Rightarrow> Unspecified
         | Some (sv', Inl e) \<Rightarrow> Failure (Fatalf_before_stmt stepNum)
         | Some (sv', Inr rows) \<Rightarrow> Done sv')
      else Done sv)"

text \<open>\<open>updateProgress\<close> with its query (line 111), which also goes through
  \<open>progressConn\<close>.\<close>

definition load_progress :: "string \<Rightarrow> nat \<Rightarrow> harness \<Rightarrow> harness run" where
  "load_progress connName stepNum h =
     (case query_progress ''progress'' connName (srv h) of
        None \<Rightarrow> Unspecified
      | Some (sv', q) \<Rightarrow>
          (case updateProgress stepNum q (progressBar h) of
             Inl e \<Rightarrow> Failure e
           | Inr bar \<Rightarrow> Done (h\<lparr>srv := sv', progressBar := bar\<rparr>)))"

text \<open>\<open>report\<close> (lines 172 to 181): erase the bar for the new status, load the markers
  when that status counts as open, write the line, then the savepoint stack.\<close>

definition report :: "string \<Rightarrow> nat \<Rightarrow> string \<Rightarrow> string \<Rightarrow> harness \<Rightarrow> harness run" where
  "report connName stepNum beforeStatus afterStatus h =
     (let h1 = h\<lparr>progressBar := erase afterStatus (progressBar h)\<rparr> in
      case (if isOpenTxn afterStatus then load_progress connName stepNum h1 else Done h1) of
        Unspecified \<Rightarrow> Unspecified
      | Failure e \<Rightarrow> Failure e
      | Done h2 \<Rightarrow>
          (let line = ''-- '' @ pad11 beforeStatus @ '' -> '' @ pad11 afterStatus @ '' ''
                      @ progressBar h2 @ '' '' @ '' ''
           in case query_savepoint_status connName (srv h2) of
                Unspecified \<Rightarrow> Unspecified
              | Failure e \<Rightarrow> Failure e
              | Done q \<Rightarrow>
                  (case showSavepointStatus stepNum q (buf h2 @ line) of
                     Inl e \<Rightarrow> Failure e
                   | Inr b \<Rightarrow> Done (h2\<lparr>buf := b @ [CHR 0x0A]\<rparr>))))"

text \<open>One turn of the loop over the statements (lines 186 to 215); the state of the loop
  is the harness and \<open>beforeStatus\<close>.\<close>

definition run_stmt ::
  "string \<Rightarrow> nat \<Rightarrow> write_op statement \<Rightarrow> harness \<times> string \<Rightarrow> (harness \<times> string) run" where
  "run_stmt connName stepNum stmt st =
     (case st of (h, beforeStatus) \<Rightarrow>
      case mark_progress connName stepNum beforeStatus (srv h) of
        Unspecified \<Rightarrow> Unspecified
      | Failure e \<Rightarrow> Failure e
      | Done sv1 \<Rightarrow>
          (case ExecContext connName stmt sv1 of
             None \<Rightarrow> Unspecified
           | Some (sv2, out) \<Rightarrow>
               (case read_txn_status connName stepNum sv2 of
                  Unspecified \<Rightarrow> Unspecified
                | Failure e \<Rightarrow> Failure e
                | Done afterStatus \<Rightarrow>
                    (case report connName stepNum beforeStatus afterStatus (h\<lparr>srv := sv2\<rparr>) of
                       Unspecified \<Rightarrow> Unspecified
                     | Failure e \<Rightarrow> Failure e
                     | Done h' \<Rightarrow> Done (h', afterStatus)))))"

fun run_stmts ::
  "string \<Rightarrow> nat \<Rightarrow> write_op statement list \<Rightarrow> harness \<times> string \<Rightarrow> (harness \<times> string) run" where
  "run_stmts connName i [] st = Done st"
| "run_stmts connName i (stmt # rest) st =
     (case run_stmt connName (i + 1) stmt st of
        Unspecified \<Rightarrow> Unspecified
      | Failure e \<Rightarrow> Failure e
      | Done st' \<Rightarrow> run_stmts connName (i + 1) rest st')"

text \<open>The directive (lines 69 to 217): pick the connection, abort what it had open (the
  result is dropped), clear its rows of \<open>progress\<close>, run the statements.\<close>

definition sql_directive :: "string \<Rightarrow> write_op statement list \<Rightarrow> Server \<Rightarrow> harness run" where
  "sql_directive connName stmts sv0 =
     (let sv1 = getConn connName sv0 in
      case ExecContext connName ROLLBACK sv1 of
        None \<Rightarrow> Unspecified
      | Some (sv2, aborted) \<Rightarrow>
          (case ExecContext ''progress'' (delete_progress connName) sv2 of
             None \<Rightarrow> Unspecified
           | Some (sv3, Inl e) \<Rightarrow> Failure Fatalf_cleaning_up
           | Some (sv3, Inr rows) \<Rightarrow>
               (case read_txn_status connName 0 sv3 of
                  Unspecified \<Rightarrow> Unspecified
                | Failure e \<Rightarrow> Failure e
                | Done beforeStatus \<Rightarrow>
                    (case run_stmts connName 0 stmts
                            (\<lparr>srv = sv3, progressBar = make_progressBar stmts, buf = []\<rparr>,
                             beforeStatus) of
                       Unspecified \<Rightarrow> Unspecified
                     | Failure e \<Rightarrow> Failure e
                     | Done (h, afterStatus) \<Rightarrow> Done h))))"

text \<open>The rows of \<open>progress\<close> that belong to a connection name, as committed.\<close>

definition committed_markers :: "string \<Rightarrow> Server \<Rightarrow> int list" where
  "committed_markers connName sv =
     map snd (filter (\<lambda>row. fst row = connName) (progress_table (kv sv)))"


section \<open>Reference renderings\<close>

text \<open>The rendering of a savepoint stack as the harness is described to print it: the
  entries joined by \<open>>\<close>, restart savepoints suffixed with \<open>(r)\<close>, and \<open>(none)\<close> for an empty
  stack.\<close>

fun join :: "string \<Rightarrow> string list \<Rightarrow> string" where
  "join sep [] = []"
| "join sep [x] = x"
| "join sep (x # y # ys) = x @ sep @ join sep (y # ys)"

definition savepoint_label :: "string \<times> bool \<Rightarrow> string" where
  "savepoint_label p = (if snd p then fst p @ ''(r)'' else fst p)"

definition render_savepoints :: "(string \<times> bool) list \<Rightarrow> string" where
  "render_savepoints rows =
     (if rows = [] then ''(none)'' else join ''>'' (map savepoint_label rows))"


section \<open>Properties of the op generation\<close>

text \<open>
  C10. The registration for \<open>scpb.ColumnName\<close> has one transition on the add path, to
  PUBLIC with minimum phase PreCommitPhase, and one on the drop path, to ABSENT with minimum
  phase PostCommitPhase; each emits exactly one \<open>SetColumnName\<close> whose TableID, ColumnID and
  Name are those of the element.
\<close>

theorem column_name_emits_SetColumnName:
  "path_ops ADD this =
     [(Status_PUBLIC, [PreCommitPhase],
       [SetColumnName (TableID this) (ColumnID this) (Name this)])]
   \<and> path_ops DROP this =
     [(Status_ABSENT, [PostCommitPhase],
       [SetColumnName (TableID this) (ColumnID this) (Name this)])]"
  by (simp add: path_ops_def column_name_init_def)


section \<open>Properties of the harness\<close>

subsection \<open>The progress bar\<close>

lemma fold_list_update_upt:
  "n \<le> length bar \<Longrightarrow>
   fold (\<lambda>i b. b[i := c]) [0..<n] bar = replicate n c @ drop n bar"
proof (induction n)
  case 0
  then show ?case by simp
next
  case (Suc n)
  then have n: "n < length bar" by simp
  have "fold (\<lambda>i b. b[i := c]) [0..<Suc n] bar = (replicate n c @ drop n bar)[n := c]"
    using Suc by simp
  also have "\<dots> = replicate n c @ (drop n bar)[0 := c]"
    by (simp add: list_update_append)
  also have "(drop n bar)[0 := c] = c # drop (Suc n) bar"
    using n by (metis Cons_nth_drop_Suc list_update_code(2))
  finally show ?case by (simp add: replicate_append_same)
qed

lemma erase_replicate:
  "erase status bar =
     replicate (length bar) (if isOpenTxn status then CHR ''.'' else CHR ''X'')"
  by (simp add: erase_def Let_def fold_list_update_upt)

subsection \<open>The marker before a statement\<close>

lemma progress_table_snoc:
  "progress_table (ws @ [ProgressInsert c n]) = progress_table ws @ [(c, n)]"
  by (simp add: progress_table_def)

lemma mark_progress_NoTxn_conn:
  assumes "isOpenTxn status" "sqlConns sv ''progress'' = Some p" "txnState p = NoTxn"
          "(connName, int stepNum) \<notin> set (progress_table (kv sv))"
  shows "mark_progress connName stepNum status sv =
           Done (sv\<lparr>kv := kv sv @ [ProgressInsert connName (int stepNum)],
                    sqlConns := (sqlConns sv)(''progress'' \<mapsto> p\<lparr>stepCounter := Suc (stepCounter p)\<rparr>)\<rparr>)"
  using assms
  by (simp add: mark_progress_def ExecContext_def ExecuteBoundary_def insert_progress_def
        count_step_def)

lemma mark_progress_Open_conn:
  assumes "isOpenTxn status" "sqlConns sv ''progress'' = Some p" "txnState p = Open"
          "handle p = Some h"
          "(connName, int stepNum) \<notin> set (progress_table (kv sv @ writes h))"
  shows "mark_progress connName stepNum status sv =
           Done (sv\<lparr>sqlConns := (sqlConns sv)(''progress'' \<mapsto>
                      p\<lparr>handle := Some (h\<lparr>writes := writes h @ [ProgressInsert connName (int stepNum)]\<rparr>),
                        stepCounter := Suc (stepCounter p)\<rparr>)\<rparr>)"
  using assms
  by (simp add: mark_progress_def ExecContext_def ExecuteBoundary_def insert_progress_def
        count_step_def Write_def)


text \<open>
  C8. \<open>isOpenTxn\<close> holds of exactly the two strings \<open>OpenStateStr\<close> and \<open>NoTxnStateStr\<close>. So the
  harness does for the state without a transaction what it does for an open one: \<open>erase\<close>
  fills the bar with dots (and with \<open>X\<close> for any other status), and the marker is written
  before the statement (and not written for any other status). Writing the marker has its
  effect on the server: when the connection \<open>progress\<close> is outside a transaction the row
  \<open>(connName, stepNum)\<close> is appended to the committed table, and when it is inside one the
  row is appended to the writes of that transaction; in both cases the connection then sees
  the table with the new row at its end.
\<close>

theorem isOpenTxn_NoTxn_like_Open:
  "(isOpenTxn status \<longleftrightarrow> status = OpenStateStr \<or> status = NoTxnStateStr)
   \<and> erase NoTxnStateStr bar = replicate (length bar) (CHR ''.'')
   \<and> erase OpenStateStr bar = replicate (length bar) (CHR ''.'')
   \<and> erase status bar = replicate (length bar) (if isOpenTxn status then CHR ''.'' else CHR ''X'')
   \<and> mark_progress connName stepNum NoTxnStateStr sv =
       mark_progress connName stepNum OpenStateStr sv
   \<and> mark_progress connName stepNum NoTxnStateStr sv =
       (case ExecContext ''progress'' (insert_progress connName (int stepNum)) sv of
          None \<Rightarrow> Unspecified
        | Some (sv', Inl e) \<Rightarrow> Failure (Fatalf_before_stmt stepNum)
        | Some (sv', Inr rows) \<Rightarrow> Done sv')
   \<and> mark_progress connName stepNum status sv =
       (if isOpenTxn status then mark_progress connName stepNum OpenStateStr sv else Done sv)
   \<and> (sqlConns sv ''progress'' = Some p \<and> txnState p = NoTxn
        \<and> (connName, int stepNum) \<notin> set (progress_table (kv sv)) \<longrightarrow>
       (\<exists>sv'. mark_progress connName stepNum NoTxnStateStr sv = Done sv'
          \<and> mark_progress connName stepNum OpenStateStr sv = Done sv'
          \<and> kv sv' = kv sv @ [ProgressInsert connName (int stepNum)]
          \<and> progress_table (kv sv') = progress_table (kv sv) @ [(connName, int stepNum)]
          \<and> committed_markers connName sv' = committed_markers connName sv @ [int stepNum]))
   \<and> (sqlConns sv ''progress'' = Some p \<and> txnState p = Open \<and> handle p = Some h
        \<and> (connName, int stepNum) \<notin> set (progress_table (kv sv @ writes h)) \<longrightarrow>
       (\<exists>sv' p' h'. mark_progress connName stepNum NoTxnStateStr sv = Done sv'
          \<and> mark_progress connName stepNum OpenStateStr sv = Done sv'
          \<and> kv sv' = kv sv
          \<and> sqlConns sv' ''progress'' = Some p' \<and> txnState p' = Open \<and> handle p' = Some h'
          \<and> writes h' = writes h @ [ProgressInsert connName (int stepNum)]
          \<and> progress_table (visible sv' p') =
              progress_table (visible sv p) @ [(connName, int stepNum)]))"
proof -
  have o: "isOpenTxn OpenStateStr" and n: "isOpenTxn NoTxnStateStr"
    by (simp_all add: isOpenTxn_def)
  have a: "(isOpenTxn status \<longleftrightarrow> status = OpenStateStr \<or> status = NoTxnStateStr)
   \<and> erase NoTxnStateStr bar = replicate (length bar) (CHR ''.'')
   \<and> erase OpenStateStr bar = replicate (length bar) (CHR ''.'')
   \<and> erase status bar = replicate (length bar) (if isOpenTxn status then CHR ''.'' else CHR ''X'')
   \<and> mark_progress connName stepNum NoTxnStateStr sv =
       mark_progress connName stepNum OpenStateStr sv
   \<and> mark_progress connName stepNum NoTxnStateStr sv =
       (case ExecContext ''progress'' (insert_progress connName (int stepNum)) sv of
          None \<Rightarrow> Unspecified
        | Some (sv', Inl e) \<Rightarrow> Failure (Fatalf_before_stmt stepNum)
        | Some (sv', Inr rows) \<Rightarrow> Done sv')
   \<and> mark_progress connName stepNum status sv =
       (if isOpenTxn status then mark_progress connName stepNum OpenStateStr sv else Done sv)"
    by (simp add: erase_replicate mark_progress_def o n) (simp add: isOpenTxn_def)
  have b: "\<exists>sv'. mark_progress connName stepNum NoTxnStateStr sv = Done sv'
          \<and> mark_progress connName stepNum OpenStateStr sv = Done sv'
          \<and> kv sv' = kv sv @ [ProgressInsert connName (int stepNum)]
          \<and> progress_table (kv sv') = progress_table (kv sv) @ [(connName, int stepNum)]
          \<and> committed_markers connName sv' = committed_markers connName sv @ [int stepNum]"
    if "sqlConns sv ''progress'' = Some p" "txnState p = NoTxn"
       "(connName, int stepNum) \<notin> set (progress_table (kv sv))"
    using mark_progress_NoTxn_conn[OF n that] mark_progress_NoTxn_conn[OF o that]
    by (simp add: progress_table_snoc committed_markers_def)
  have c: "\<exists>sv' p' h'. mark_progress connName stepNum NoTxnStateStr sv = Done sv'
          \<and> mark_progress connName stepNum OpenStateStr sv = Done sv'
          \<and> kv sv' = kv sv
          \<and> sqlConns sv' ''progress'' = Some p' \<and> txnState p' = Open \<and> handle p' = Some h'
          \<and> writes h' = writes h @ [ProgressInsert connName (int stepNum)]
          \<and> progress_table (visible sv' p') =
              progress_table (visible sv p) @ [(connName, int stepNum)]"
    if "sqlConns sv ''progress'' = Some p" "txnState p = Open" "handle p = Some h"
       "(connName, int stepNum) \<notin> set (progress_table (kv sv @ writes h))"
    using mark_progress_Open_conn[OF n that] mark_progress_Open_conn[OF o that] that
    by (simp add: visible_def progress_table_def)
  from b c have d: "(sqlConns sv ''progress'' = Some p \<and> txnState p = NoTxn
        \<and> (connName, int stepNum) \<notin> set (progress_table (kv sv)) \<longrightarrow>
       (\<exists>sv'. mark_progress connName stepNum NoTxnStateStr sv = Done sv'
          \<and> mark_progress connName stepNum OpenStateStr sv = Done sv'
          \<and> kv sv' = kv sv @ [ProgressInsert connName (int stepNum)]
          \<and> progress_table (kv sv') = progress_table (kv sv) @ [(connName, int stepNum)]
          \<and> committed_markers connName sv' = committed_markers connName sv @ [int stepNum]))
   \<and> (sqlConns sv ''progress'' = Some p \<and> txnState p = Open \<and> handle p = Some h
        \<and> (connName, int stepNum) \<notin> set (progress_table (kv sv @ writes h)) \<longrightarrow>
       (\<exists>sv' p' h'. mark_progress connName stepNum NoTxnStateStr sv = Done sv'
          \<and> mark_progress connName stepNum OpenStateStr sv = Done sv'
          \<and> kv sv' = kv sv
          \<and> sqlConns sv' ''progress'' = Some p' \<and> txnState p' = Open \<and> handle p' = Some h'
          \<and> writes h' = writes h @ [ProgressInsert connName (int stepNum)]
          \<and> progress_table (visible sv' p') =
              progress_table (visible sv p) @ [(connName, int stepNum)]))"
    by (intro conjI impI) (elim conjE, assumption+)+
  from a d show ?thesis by (intro conjI) (elim conjE, assumption)+
qed

theorem isOpenTxn_NoTxn_like_Open_witness:
  "sqlConns start_server ''progress'' = Some new_session
   \<and> txnState (new_session :: write_op Session) = NoTxn
   \<and> (''default'', int 1) \<notin> set (progress_table (kv start_server))
   \<and> (case mark_progress ''default'' 1 NoTxnStateStr start_server of
         Done sv' \<Rightarrow> committed_markers ''default'' sv' | _ \<Rightarrow> []) = [1]
   \<and> sqlConns (start_server\<lparr>sqlConns := (sqlConns start_server)(''progress'' \<mapsto>
           \<lparr>txnState = Open, stack = [], handle = Some \<lparr>writes = [OtherWrite ''x''], epoch = 0\<rparr>,
             stepCounter = 1\<rparr>)\<rparr>) ''progress''
       = Some \<lparr>txnState = Open, stack = [], handle = Some \<lparr>writes = [OtherWrite ''x''], epoch = 0\<rparr>,
               stepCounter = 1\<rparr>
   \<and> (''progress'', int 2) \<notin> set (progress_table (kv start_server @ [OtherWrite ''x'']))
   \<and> (case mark_progress ''progress'' 2 OpenStateStr
              (start_server\<lparr>sqlConns := (sqlConns start_server)(''progress'' \<mapsto>
                 \<lparr>txnState = Open, stack = [],
                   handle = Some \<lparr>writes = [OtherWrite ''x''], epoch = 0\<rparr>, stepCounter = 1\<rparr>)\<rparr>) of
         Done sv' \<Rightarrow> (kv sv', map_option (\<lambda>p'. map_option writes (handle p')) (sqlConns sv' ''progress''))
       | _ \<Rightarrow> ([], None))
       = ([], Some (Some [OtherWrite ''x'', ProgressInsert ''progress'' 2]))
   \<and> (case sql_directive ''default'' [Ordinary (\<lambda>seen. Succeeds [] None), BEGIN] start_server of
         Done h \<Rightarrow> Some (committed_markers ''default'' (srv h), progressBar h)
       | _ \<Rightarrow> None)
       = Some ([1, 2], ''##'')"
proof -
  let ?h = "\<lparr>writes = [OtherWrite ''x''], epoch = 0\<rparr> :: write_op StoreTxn"
  let ?p = "\<lparr>txnState = Open, stack = [], handle = Some ?h, stepCounter = 1\<rparr> :: write_op Session"
  let ?sv = "start_server\<lparr>sqlConns := (sqlConns start_server)(''progress'' \<mapsto> ?p)\<rparr>"
  have 1: "sqlConns start_server ''progress'' = Some new_session"
    and 2: "txnState (new_session :: write_op Session) = NoTxn"
    and 4: "kv start_server = []"
    by (simp_all add: start_server_def getConn_def new_session_def)
  have 3: "(''default'', int 1) \<notin> set (progress_table (kv start_server))"
    by (simp add: 4 progress_table_def)
  have 5: "sqlConns ?sv ''progress'' = Some ?p" by simp
  have 6: "(''progress'', int 2) \<notin> set (progress_table (kv start_server @ [OtherWrite ''x'']))"
    by (simp add: 4 progress_table_def)
  note T1 = isOpenTxn_NoTxn_like_Open
              [of NoTxnStateStr "[]" "''default''" 1 start_server new_session ?h]
  note T2 = isOpenTxn_NoTxn_like_Open [of OpenStateStr "[]" "''progress''" 2 ?sv ?p ?h]
  note N = T1[THEN conjunct2, THEN conjunct2, THEN conjunct2, THEN conjunct2, THEN conjunct2,
              THEN conjunct2, THEN conjunct2, THEN conjunct1]
  note O = T2[THEN conjunct2, THEN conjunct2, THEN conjunct2, THEN conjunct2, THEN conjunct2,
              THEN conjunct2, THEN conjunct2, THEN conjunct2]
  from N 1 2 3 obtain sv1 where
    a: "mark_progress ''default'' 1 NoTxnStateStr start_server = Done sv1"
    and b: "committed_markers ''default'' sv1 = committed_markers ''default'' start_server @ [int 1]"
    by blast
  have A: "(case mark_progress ''default'' 1 NoTxnStateStr start_server of
         Done sv' \<Rightarrow> committed_markers ''default'' sv' | _ \<Rightarrow> []) = [1]"
    using a b by (simp add: committed_markers_def 4 progress_table_def)
  have h6: "(''progress'', int 2) \<notin> set (progress_table (kv ?sv @ writes ?h))"
    using 6 by simp
  have 7: "txnState ?p = Open" "handle ?p = Some ?h" by simp_all
  from O 5 7 h6 obtain sv2 p2 h2 where
    c: "mark_progress ''progress'' 2 OpenStateStr ?sv = Done sv2"
    and d: "kv sv2 = kv ?sv" "sqlConns sv2 ''progress'' = Some p2" "handle p2 = Some h2"
       "writes h2 = writes ?h @ [ProgressInsert ''progress'' (int 2)]"
    by blast
  have B: "(case mark_progress ''progress'' 2 OpenStateStr ?sv of
         Done sv' \<Rightarrow> (kv sv', map_option (\<lambda>p'. map_option writes (handle p')) (sqlConns sv' ''progress''))
       | _ \<Rightarrow> ([], None))
       = ([], Some (Some [OtherWrite ''x'', ProgressInsert ''progress'' 2]))"
    using c d by (simp add: 4)
  have L: "(case sql_directive ''default'' [Ordinary (\<lambda>seen. Succeeds [] None), BEGIN]
                   start_server of
              Done h \<Rightarrow> Some (committed_markers ''default'' (srv h), progressBar h)
            | _ \<Rightarrow> None)
            = Some ([1, 2], ''##'')"
    by code_simp
  from 1 2 3 A 5 6 B L show ?thesis by (intro conjI)
qed

subsection \<open>Loading the markers into the bar\<close>

lemma set_byte_in_range:
  "1 \<le> n \<Longrightarrow> n \<le> int (length bar) \<Longrightarrow>
   set_byte bar (n - 1) c = Inr (bar[nat (n - 1) := c])"
  by (simp add: set_byte_def)

lemma updateProgress_rows_no_panic:
  "updateProgress_rows stepNum rows bar \<noteq> Inl Panic_index_out_of_range"
  by (induction stepNum rows bar rule: updateProgress_rows.induct)
     (auto simp: set_byte_in_range)

lemma updateProgress_rows_length:
  "updateProgress_rows stepNum rows bar = Inr bar' \<Longrightarrow> length bar' = length bar"
  by (induction stepNum rows bar rule: updateProgress_rows.induct)
     (auto simp: set_byte_in_range split: if_splits)

lemma updateProgress_rows_fails:
  "Scanned n \<in> set rows \<Longrightarrow> n < 1 \<or> n > int (length bar) \<Longrightarrow>
   isl (updateProgress_rows stepNum rows bar)"
proof (induction stepNum rows bar rule: updateProgress_rows.induct)
  case (3 stepNum m rows bar)
  show ?case
  proof (cases "m < 1 \<or> m > int (length bar)")
    case True
    then show ?thesis by simp
  next
    case False
    then have sb: "set_byte bar (m - 1) (CHR ''#'') = Inr (bar[nat (m - 1) := CHR ''#''])"
      by (simp add: set_byte_in_range)
    from False "3.prems" have "Scanned n \<in> set rows" by auto
    with "3.IH"[OF False sb] "3.prems"(2) False sb show ?thesis by simp
  qed
qed simp_all

lemma updateProgress_length:
  "updateProgress stepNum q bar = Inr bar' \<Longrightarrow> length bar' = length bar"
  by (cases q) (auto simp: updateProgress_def dest: updateProgress_rows_length)

lemma load_progress_length:
  "load_progress connName stepNum h = Done h' \<Longrightarrow>
   length (progressBar h') = length (progressBar h)"
  by (auto simp: load_progress_def split: option.splits sum.splits
           dest!: updateProgress_length)

lemma report_length:
  "report connName stepNum b a h = Done h' \<Longrightarrow>
   length (progressBar h') = length (progressBar h)"
  by (auto simp: report_def Let_def erase_replicate split: run.splits sum.splits if_splits
           dest!: load_progress_length)

lemma run_stmt_length:
  "run_stmt connName stepNum stmt (h, b) = Done (h', a) \<Longrightarrow>
   length (progressBar h') = length (progressBar h)"
  by (auto simp: run_stmt_def split: run.splits option.splits dest!: report_length)

lemma run_stmts_length:
  "run_stmts connName i stmts st = Done st' \<Longrightarrow>
   length (progressBar (fst st')) = length (progressBar (fst st))"
proof (induction stmts arbitrary: i st)
  case Nil
  then show ?case by simp
next
  case (Cons x xs)
  from Cons.prems obtain st1 where
    1: "run_stmt connName (i + 1) x st = Done st1" and
    2: "run_stmts connName (i + 1) xs st1 = Done st'"
    by (auto split: run.splits)
  from 1 have "length (progressBar (fst st1)) = length (progressBar (fst st))"
    by (cases st, cases st1) (auto dest: run_stmt_length)
  with Cons.IH[OF 2] show ?case by simp
qed

lemma sql_directive_length:
  "sql_directive connName stmts sv0 = Done h \<Longrightarrow> length (progressBar h) = length stmts"
  by (auto simp: sql_directive_def Let_def make_progressBar_def
           split: option.splits sum.splits run.splits dest!: run_stmts_length)

text \<open>
  C9. \<open>updateProgress\<close> never reaches the write \<open>progressBar[n-1]\<close> with an index outside
  the bar: it never ends in the index panic. Whenever a row read from the table is below 1
  or above the length of the bar, the test fails. The bar keeps its length, which is the
  number of statements from \<open>make\<close> on, through \<open>erase\<close>, and to the end of the directive.
\<close>

theorem updateProgress_within_bounds:
  "updateProgress stepNum q bar \<noteq> Inl Panic_index_out_of_range
   \<and> (Scanned n \<in> set rows \<and> (n < 1 \<or> n > int (length bar)) \<longrightarrow>
        (\<exists>e. updateProgress stepNum (Rows rows) bar = Inl e \<and> e \<noteq> Panic_index_out_of_range))
   \<and> (updateProgress stepNum q bar = Inr bar' \<longrightarrow> length bar' = length bar)
   \<and> length (make_progressBar stmts) = length stmts
   \<and> length (erase status bar) = length bar
   \<and> (sql_directive connName stmts sv0 = Done h \<longrightarrow> length (progressBar h) = length stmts)"
proof -
  have 1: "updateProgress stepNum q bar \<noteq> Inl Panic_index_out_of_range" for q
    by (cases q) (simp_all add: updateProgress_def updateProgress_rows_no_panic)
  have 2: "\<exists>e. updateProgress stepNum (Rows rows) bar = Inl e \<and> e \<noteq> Panic_index_out_of_range"
    if "Scanned n \<in> set rows" "n < 1 \<or> n > int (length bar)"
  proof -
    from updateProgress_rows_fails[OF that, of stepNum]
    obtain e where e: "updateProgress_rows stepNum rows bar = Inl e"
      by (cases "updateProgress_rows stepNum rows bar") auto
    with updateProgress_rows_no_panic[of stepNum rows bar] show ?thesis
      by (auto simp: updateProgress_def)
  qed
  show ?thesis
    using 1 2 updateProgress_length sql_directive_length
    by (simp add: make_progressBar_def erase_replicate)
qed

theorem updateProgress_within_bounds_witness:
  "Scanned 3 \<in> set [Scanned 1, Scanned (3::int)] \<and> (3::int) > int (length ''..'')
   \<and> updateProgress 2 (Rows [Scanned 1, Scanned 3]) ''..'' = Inl (Fatalf_unexpected_stepnum 2 3)
   \<and> updateProgress 2 (Rows [Scanned 2]) ''..'' = Inr ''.#''
   \<and> length ''.#'' = length ''..''
   \<and> (\<exists>h. sql_directive ''default'' [BEGIN, ROLLBACK] start_server = Done h
          \<and> length (progressBar h) = 2)"
proof -
  have d: "case sql_directive ''default'' [BEGIN, ROLLBACK] start_server of
             Done h \<Rightarrow> True | _ \<Rightarrow> False"
    by code_simp
  then obtain h where h: "sql_directive ''default'' [BEGIN, ROLLBACK] start_server = Done h"
    by (auto split: run.splits)
  have u: "updateProgress 2 (Rows [Scanned 2]) ''..'' = Inr ''.#''"
    by (simp add: updateProgress_def set_byte_def)
  have f: "updateProgress 2 (Rows [Scanned 1, Scanned 3]) ''..'' = Inl (Fatalf_unexpected_stepnum 2 3)"
    by (simp add: updateProgress_def set_byte_def)
  from updateProgress_within_bounds
         [of 2 "Rows [Scanned 2]" "''..''" 3 "[Scanned 1, Scanned 3]" "''.#''"
             "[BEGIN, ROLLBACK]" "''Open''" "''default''" start_server h]
       h u f
  show ?thesis by auto
qed


subsection \<open>Rendering the savepoint stack\<close>

lemma savepoint_label_pair: "savepoint_label (n, r) = (if r then n @ ''(r)'' else n)"
  by (simp add: savepoint_label_def)

lemma showSavepointStatus_rows_Scanned:
  "showSavepointStatus_rows stepNum (map Scanned rows) (comma, has, b) =
     Inr (if rows = [] then (comma, has, b)
          else (''>'', True, b @ comma @ join ''>'' (map savepoint_label rows)))"
proof (induction rows arbitrary: comma has b)
  case Nil
  then show ?case by simp
next
  case (Cons r rows)
  obtain n isR where r: "r = (n, isR)" by (cases r)
  show ?case
  proof (cases rows)
    case Nil
    then show ?thesis by (simp add: r savepoint_label_def)
  next
    case (Cons r' rows')
    then show ?thesis using Cons.IH[of "''>''" True] by (simp add: r savepoint_label_def)
  qed
qed

lemma showSavepointStatus_render:
  "showSavepointStatus stepNum (Rows (map Scanned rows)) b = Inr (b @ render_savepoints rows)"
  by (simp add: showSavepointStatus_def showSavepointStatus_rows_Scanned render_savepoints_def)

lemma SAVEPOINT_pushes_on_top:
  "ExecuteBoundary store s (SAVEPOINT n r) = Some (store', s', Inr rows) \<Longrightarrow>
   SavepointNames s' = (n, r) # SavepointNames s"
  by (cases "txnState s")
     (auto simp: ExecuteBoundary_def count_step_def Push_def SavepointNames_def
           split: option.splits if_splits)

text \<open>
  C7. \<open>SavepointNames\<close> lists the pairs (name, isRestart) of the stack in stack order, and a
  savepoint that has just been created is the first of them, so the order is from the top
  (created last) to the bottom. The harness asks the connection for this list and writes it
  to the buffer in the order received: \<open>(none)\<close> for an empty stack, otherwise the names
  joined by \<open>>\<close>, each restart savepoint with \<open>(r)\<close> after its name.
\<close>

theorem showSavepointStatus_renders_top_first:
  "SavepointNames s = map (\<lambda>sp. (name sp, isRestart sp)) (stack s)
   \<and> (ExecuteBoundary store s (SAVEPOINT n r) = Some (store', s', Inr rows) \<longrightarrow>
        SavepointNames s' = (n, r) # SavepointNames s)
   \<and> (sqlConns sv connName = Some s \<longrightarrow>
        query_savepoint_status connName sv = Done (Rows (map Scanned (SavepointNames s))))
   \<and> showSavepointStatus stepNum (Rows (map Scanned (SavepointNames s))) b =
        Inr (b @ render_savepoints (SavepointNames s))
   \<and> render_savepoints (SavepointNames s) =
        (if stack s = [] then ''(none)''
         else join ''>'' (map (\<lambda>sp. if isRestart sp then name sp @ ''(r)'' else name sp)
                            (stack s)))"
  using SAVEPOINT_pushes_on_top[of store s n r store' s' rows]
  by (simp add: showSavepointStatus_render query_savepoint_status_def)
     (simp add: SavepointNames_def render_savepoints_def savepoint_label_pair comp_def)

theorem showSavepointStatus_renders_top_first_witness:
  "ExecuteBoundary ([]::write_op list)
      \<lparr>txnState = Open, stack = [\<lparr>name = ''a'', isRestart = True, snapshotToken = 0\<rparr>],
        handle = Some \<lparr>writes = [], epoch = 0\<rparr>, stepCounter = 2\<rparr>
      (SAVEPOINT ''b'' False)
    = Some ([],
        \<lparr>txnState = Open,
          stack = [\<lparr>name = ''b'', isRestart = False, snapshotToken = 0\<rparr>,
                   \<lparr>name = ''a'', isRestart = True, snapshotToken = 0\<rparr>],
          handle = Some \<lparr>writes = [], epoch = 0\<rparr>, stepCounter = 3\<rparr>,
        Inr None)
   \<and> SavepointNames
        \<lparr>txnState = Open,
          stack = [\<lparr>name = ''b'', isRestart = False, snapshotToken = 0\<rparr>,
                   \<lparr>name = ''a'', isRestart = True, snapshotToken = 0\<rparr>],
          handle = Some \<lparr>writes = ([]::write_op list), epoch = 0\<rparr>, stepCounter = 3\<rparr>
       = (''b'', False) # SavepointNames
           \<lparr>txnState = Open, stack = [\<lparr>name = ''a'', isRestart = True, snapshotToken = 0\<rparr>],
             handle = Some \<lparr>writes = ([]::write_op list), epoch = 0\<rparr>, stepCounter = 2\<rparr>
   \<and> sqlConns start_server ''progress'' = Some new_session
   \<and> query_savepoint_status ''progress'' start_server = Done (Rows [])
   \<and> showSavepointStatus 3
        (Rows (map Scanned (SavepointNames
           \<lparr>txnState = Open,
             stack = [\<lparr>name = ''b'', isRestart = False, snapshotToken = 0\<rparr>,
                      \<lparr>name = ''a'', isRestart = True, snapshotToken = 0\<rparr>],
             handle = Some \<lparr>writes = ([]::write_op list), epoch = 0\<rparr>, stepCounter = 3\<rparr>)))
        ''-- ''
       = Inr ''-- b>a(r)''"
proof -
  have e: "ExecuteBoundary ([]::write_op list)
      \<lparr>txnState = Open, stack = [\<lparr>name = ''a'', isRestart = True, snapshotToken = 0\<rparr>],
        handle = Some \<lparr>writes = [], epoch = 0\<rparr>, stepCounter = 2\<rparr>
      (SAVEPOINT ''b'' False)
    = Some ([],
        \<lparr>txnState = Open,
          stack = [\<lparr>name = ''b'', isRestart = False, snapshotToken = 0\<rparr>,
                   \<lparr>name = ''a'', isRestart = True, snapshotToken = 0\<rparr>],
          handle = Some \<lparr>writes = [], epoch = 0\<rparr>, stepCounter = 3\<rparr>,
        Inr None)"
    by (simp add: ExecuteBoundary_def count_step_def Push_def CreateSavepoint_def)
  have c: "sqlConns start_server ''progress'' = Some new_session"
    by (simp add: start_server_def getConn_def)
  from e c
    showSavepointStatus_renders_top_first
      [of "\<lparr>txnState = Open, stack = [\<lparr>name = ''a'', isRestart = True, snapshotToken = 0\<rparr>],
             handle = Some \<lparr>writes = ([]::write_op list), epoch = 0\<rparr>, stepCounter = 2\<rparr>"
          "[]" "''b''" False "[]"
          "\<lparr>txnState = Open,
             stack = [\<lparr>name = ''b'', isRestart = False, snapshotToken = 0\<rparr>,
                      \<lparr>name = ''a'', isRestart = True, snapshotToken = 0\<rparr>],
             handle = Some \<lparr>writes = [], epoch = 0\<rparr>, stepCounter = 3\<rparr>" None
          start_server "''progress''" 3 "''-- ''"]
    showSavepointStatus_renders_top_first
      [of "\<lparr>txnState = Open,
             stack = [\<lparr>name = ''b'', isRestart = False, snapshotToken = 0\<rparr>,
                      \<lparr>name = ''a'', isRestart = True, snapshotToken = 0\<rparr>],
             handle = Some \<lparr>writes = ([]::write_op list), epoch = 0\<rparr>, stepCounter = 3\<rparr>"
          "[]" "''b''" False "[]" new_session None start_server "''default''" 3 "''-- ''"]
  show ?thesis
    by (simp add: SavepointNames_def render_savepoints_def savepoint_label_def
          query_savepoint_status_def new_session_def)
qed


section \<open>Properties of the session core\<close>

lemma FindFromTop_None: "FindFromTop n st = None \<longleftrightarrow> n \<notin> name ` set st"
  by (induction st) auto

text \<open>
  C5. When no savepoint on the stack has the name, RELEASE SAVEPOINT and ROLLBACK TO
  SAVEPOINT of that name end in \<open>SavepointNotFoundError\<close>, in every state of every session;
  the committed store, the transaction state, the stack and the store transaction are what
  they were (only the step counter has moved on).
\<close>

theorem absent_savepoint_fails_atomically:
  assumes "n \<notin> name ` set (stack s)"
  shows "ExecuteBoundary store s (RELEASE n) =
           Some (store, s\<lparr>stepCounter := Suc (stepCounter s)\<rparr>, Inl SavepointNotFoundError)
       \<and> ExecuteBoundary store s (ROLLBACK_TO n) =
           Some (store, s\<lparr>stepCounter := Suc (stepCounter s)\<rparr>, Inl SavepointNotFoundError)
       \<and> txnState (s\<lparr>stepCounter := Suc (stepCounter s)\<rparr>) = txnState s
       \<and> stack (s\<lparr>stepCounter := Suc (stepCounter s)\<rparr>) = stack s"
proof -
  from assms have f: "FindFromTop n (stack s) = None" by (simp add: FindFromTop_None)
  show ?thesis
    by (cases "txnState s")
       (simp_all add: ExecuteBoundary_def ReleaseDownTo_def RollbackTo_def rollback_to_def
          count_step_def f)
qed

theorem absent_savepoint_fails_atomically_witness:
  "''b'' \<notin> name ` set (stack \<lparr>txnState = Aborted,
             stack = [\<lparr>name = ''a'', isRestart = True, snapshotToken = 0\<rparr>],
             handle = Some \<lparr>writes = [OtherWrite ''x''], epoch = 0\<rparr>, stepCounter = 2\<rparr>)
   \<and> ExecuteBoundary [] \<lparr>txnState = Aborted,
             stack = [\<lparr>name = ''a'', isRestart = True, snapshotToken = 0\<rparr>],
             handle = Some \<lparr>writes = [OtherWrite ''x''], epoch = 0\<rparr>, stepCounter = 2\<rparr>
         (RELEASE ''b'')
       = Some ([], \<lparr>txnState = Aborted,
             stack = [\<lparr>name = ''a'', isRestart = True, snapshotToken = 0\<rparr>],
             handle = Some \<lparr>writes = [OtherWrite ''x''], epoch = 0\<rparr>, stepCounter = 3\<rparr>,
           Inl SavepointNotFoundError)
   \<and> ExecuteBoundary [] \<lparr>txnState = Aborted,
             stack = [\<lparr>name = ''a'', isRestart = True, snapshotToken = 0\<rparr>],
             handle = Some \<lparr>writes = [OtherWrite ''x''], epoch = 0\<rparr>, stepCounter = 2\<rparr>
         (ROLLBACK_TO ''b'')
       = Some ([], \<lparr>txnState = Aborted,
             stack = [\<lparr>name = ''a'', isRestart = True, snapshotToken = 0\<rparr>],
             handle = Some \<lparr>writes = [OtherWrite ''x''], epoch = 0\<rparr>, stepCounter = 3\<rparr>,
           Inl SavepointNotFoundError)"
  using absent_savepoint_fails_atomically
          [of "''b''" "\<lparr>txnState = Aborted,
             stack = [\<lparr>name = ''a'', isRestart = True, snapshotToken = 0\<rparr>],
             handle = Some \<lparr>writes = [OtherWrite ''x''], epoch = 0\<rparr>, stepCounter = 2\<rparr>" "[]"]
  by simp

text \<open>
  In the core, rolling back to a savepoint keeps what was written before the savepoint and
  drops what was written after it.
\<close>

lemma rollback_to_savepoint_round_trip:
  assumes "txnState s = Open" and "handle s = Some h"
    and "ExecuteBoundary store s (Ordinary (\<lambda>seen. Succeeds w1 r1)) = Some (store1, s1, o1)"
    and "ExecuteBoundary store1 s1 (SAVEPOINT n r) = Some (store2, s2, Inr r2)"
    and "ExecuteBoundary store2 s2 (Ordinary (\<lambda>seen. Succeeds w2 r3)) = Some (store3, s3, o3)"
    and "ExecuteBoundary store3 s3 (ROLLBACK_TO n) = Some (store4, s4, o4)"
  shows "o4 = Inr None \<and> txnState s4 = Open \<and> store4 = store
         \<and> map_option writes (handle s4) = Some (writes h @ w1)"
proof -
  from assms(1-3) have s1: "txnState s1 = Open" "handle s1 = Some (Write h w1)" "store1 = store"
    by (auto simp: ExecuteBoundary_def count_step_def)
  from assms(4) s1 have s2: "txnState s2 = Open" "handle s2 = Some (Write h w1)" "store2 = store"
     "stack s2 = \<lparr>name = n, isRestart = r, snapshotToken = length (writes h @ w1)\<rparr> # stack s1"
    by (auto simp: ExecuteBoundary_def count_step_def Push_def CreateSavepoint_def Write_def
             split: if_splits)
  from assms(5) s2 have s3: "txnState s3 = Open" "handle s3 = Some (Write (Write h w1) w2)"
     "store3 = store" "stack s3 = stack s2"
    by (auto simp: ExecuteBoundary_def count_step_def)
  from assms(6) s3 s2(4) show ?thesis
    by (auto simp: ExecuteBoundary_def count_step_def rollback_to_def RollbackTo_def
          RollbackToSavepoint_def Write_def)
qed


section \<open>The progress markers and the transaction under test\<close>

text \<open>
  C2. The harness writes and reads the markers through \<open>progressConn\<close>. For a directive on
  the default connection that is another session than the one under test: each marker is
  committed at once, outside the transaction, and ROLLBACK TO SAVEPOINT leaves it in the
  table. The run BEGIN; SAVEPOINT a; a write; ROLLBACK TO SAVEPOINT a ends with the
  markers of all four steps in table \<open>progress\<close> and the bar \<open>####\<close>, although steps 3 and 4
  came after the savepoint.
\<close>

theorem markers_outlive_rollback_to_savepoint:
  "(case sql_directive ''default''
           [BEGIN, SAVEPOINT ''a'' False,
            Ordinary (\<lambda>seen. Succeeds [OtherWrite ''x''] (Some 1)), ROLLBACK_TO ''a'']
           start_server of
      Done h \<Rightarrow> Some (buf h, committed_markers ''default'' (srv h), progressBar h)
    | _ \<Rightarrow> None)
   = Some (''-- NoTxn       -> Open        #...  (none)\<newline>-- Open        -> Open        ##..  a\<newline>-- Open        -> Open        ###.  a\<newline>-- Open        -> Open        ####  a\<newline>'',
           [1, 2, 3, 4], ''####'')"
  by code_simp

text \<open>
  The same statements on the connection named \<open>progress\<close>, where the markers are written
  inside the transaction under test: the rollback takes the markers of steps 3 and 4 away.
\<close>

lemma markers_rolled_back_on_progress_conn:
  "(case sql_directive ''progress''
           [BEGIN, SAVEPOINT ''a'' False,
            Ordinary (\<lambda>seen. Succeeds [OtherWrite ''x''] (Some 1)), ROLLBACK_TO ''a'']
           start_server of
      Done h \<Rightarrow> Some (buf h, progressBar h)
    | _ \<Rightarrow> None)
   = Some (''-- NoTxn       -> Open        #...  (none)\<newline>-- Open        -> Open        ##..  a\<newline>-- Open        -> Open        ###.  a\<newline>-- Open        -> Open        ##..  a\<newline>'',
           ''##..'')"
  by code_simp

end
